theory Spec2Isabelle
  imports Complex_Main
begin

section \<open>Values of the host language\<close>

text \<open>
  A JavaScript \<open>number\<close> is a finite value or \<open>NaN\<close>. The operator \<open>||\<close> keeps its
  left operand unless that operand is falsy: for a number, \<open>0\<close> or \<open>NaN\<close>; for a
  string, the empty string; for an optional value, also \<open>undefined\<close>. The operator
  \<open>??\<close> and a default parameter replace \<open>undefined\<close> only.
\<close>

datatype number = Num real | NaN

fun falsy_number :: "number \<Rightarrow> bool" where
  "falsy_number (Num x) = (x = 0)"
| "falsy_number NaN = True"

definition or_number :: "number option \<Rightarrow> number \<Rightarrow> number" where
  "or_number a d = (case a of None \<Rightarrow> d | Some v \<Rightarrow> if falsy_number v then d else v)"

definition or_string :: "string option \<Rightarrow> string \<Rightarrow> string" where
  "or_string a d = (case a of None \<Rightarrow> d | Some s \<Rightarrow> if s = [] then d else s)"

definition nullish :: "'a option \<Rightarrow> 'a option \<Rightarrow> 'a option" where
  "nullish a d = (case a of None \<Rightarrow> d | Some v \<Rightarrow> Some v)"

definition default_param :: "'a option \<Rightarrow> 'a \<Rightarrow> 'a" where
  "default_param a d = (case a of None \<Rightarrow> d | Some v \<Rightarrow> v)"

text \<open>
  A thrown value is an \<open>Error\<close> instance with its message, or some other value.
  The catch blocks of the client read it with
  \<^verbatim>\<open>error instanceof Error ? error.message : 'Unknown error'\<close>.
\<close>

datatype exn = Error string | NonError

fun exn_message :: "exn \<Rightarrow> string" where
  "exn_message (Error m) = m"
| "exn_message NonError = ''Unknown error''"

section \<open>Data model (src/solana/pumpportal.ts, lines 6-29)\<close>

type_synonym bytes = "nat list"

datatype image_payload = ImageBuffer bytes | ImageString string

record TokenMetadata =
  name :: string
  symbol :: string
  description :: string
  image_payload :: image_payload
  twitter :: "string option"
  telegram :: "string option"
  website :: "string option"

record DeployOptions =
  metadata :: TokenMetadata
  devBuyAmount :: "number option"
  slippage :: "number option"

record DeployResult =
  success :: bool
  mint :: "string option"
  signature :: "string option"
  metadataUri :: "string option"
  pumpUrl :: "string option"
  error :: "string option"

text \<open>The anonymous result type of \<open>buy\<close> and \<open>sell\<close> (lines 177-181, 225-229).\<close>

record TradeResult =
  trade_success :: bool
  trade_signature :: "string option"
  trade_error :: "string option"

text \<open>
  Keys of the chain library. A public key is identified with its base58 text, which
  the library's encoding determines one to one.
\<close>

datatype PublicKey = PublicKey (toBase58: string)

record Keypair =
  publicKey :: PublicKey
  secretKey :: bytes

record PumpPortalClient =
  wallet :: Keypair
  baseUrl :: string

section \<open>Requests to the outside world\<close>

datatype form_value = Field string | File bytes string string

type_synonym form = "(string \<times> form_value) list"

record token_metadata_ref =
  ref_name :: string
  ref_symbol :: string
  ref_uri :: string

text \<open>The JSON body posted to \<open>/trade-local\<close>.\<close>

record trade_request =
  req_publicKey :: string
  req_action :: string
  req_tokenMetadata :: "token_metadata_ref option"
  req_mint :: string
  req_denominatedInSol :: string
  req_amount :: number
  req_slippage :: number
  req_priorityFee :: number
  req_pool :: string

datatype VersionedTransaction = VersionedTransaction bytes "Keypair list"

record SendOptions =
  skipPreflight :: bool
  preflightCommitment :: string
  maxRetries :: "nat option"

text \<open>The chain library's \<open>TransactionError\<close> is an object or a string.\<close>

datatype TransactionError = ErrObject string | ErrString string

fun truthy_err :: "TransactionError option \<Rightarrow> bool" where
  "truthy_err None = False"
| "truthy_err (Some (ErrObject j)) = True"
| "truthy_err (Some (ErrString s)) = (s \<noteq> [])"

datatype body = FormBody form | JsonBody trade_request

datatype call =
    AxiosPost string body
  | Deserialize "string option"
  | Sign VersionedTransaction "Keypair list"
  | SendTransaction VersionedTransaction SendOptions
  | ConfirmTransaction string string

text \<open>
  The world holds what the collaborators answer (the pinning endpoint's
  \<open>response.data.metadataUri\<close>, the builder's \<open>response.data\<close>, the chain library
  and the node), the keypairs that \<open>Keypair.generate()\<close> will draw, how many were drawn,
  and the log of every external call made so far. An answer \<open>Inl e\<close> stands for every
  way the call can throw, a response of the wrong shape included.
\<close>

record world =
  post_ipfs :: "string \<Rightarrow> form \<Rightarrow> exn + string option"
  post_trade :: "string \<Rightarrow> trade_request \<Rightarrow> exn + string option"
  deserialize :: "string option \<Rightarrow> exn + VersionedTransaction"
  sign :: "VersionedTransaction \<Rightarrow> Keypair list \<Rightarrow> exn + VersionedTransaction"
  sendTransaction :: "VersionedTransaction \<Rightarrow> SendOptions \<Rightarrow> exn + string"
  confirmTransaction :: "string \<Rightarrow> string \<Rightarrow> exn + TransactionError option"
  JSON_stringify :: "TransactionError option \<Rightarrow> string"
  Buffer_from_base64 :: "string \<Rightarrow> bytes"
  keypairs :: "nat \<Rightarrow> Keypair"
  generated :: nat
  calls :: "call list"

type_synonym 'a io = "world \<Rightarrow> (exn + 'a) \<times> world"

definition return_io :: "'a \<Rightarrow> 'a io" where
  "return_io x w = (Inr x, w)"

definition throw_io :: "exn \<Rightarrow> 'a io" where
  "throw_io e w = (Inl e, w)"

definition bind_io :: "'a io \<Rightarrow> ('a \<Rightarrow> 'b io) \<Rightarrow> 'b io" where
  "bind_io m f w = (case m w of (Inl e, w') \<Rightarrow> (Inl e, w') | (Inr x, w') \<Rightarrow> f x w')"

text \<open>
  \<open>try { body } catch (error) { handler }\<close>: the handler runs on whatever the body
  throws; what the handler itself throws would leave the method.
\<close>

definition try_catch :: "'a io \<Rightarrow> (exn \<Rightarrow> 'a io) \<Rightarrow> 'a io" where
  "try_catch body handler w =
     (case body w of (Inl e, w') \<Rightarrow> handler e w' | (Inr x, w') \<Rightarrow> (Inr x, w'))"

definition logged :: "call \<Rightarrow> world \<Rightarrow> world" where
  "logged c w = w\<lparr>calls := calls w @ [c]\<rparr>"

definition axios_post_form :: "string \<Rightarrow> form \<Rightarrow> (string option) io" where
  "axios_post_form url formData w =
     (post_ipfs w url formData, logged (AxiosPost url (FormBody formData)) w)"

definition axios_post_json :: "string \<Rightarrow> trade_request \<Rightarrow> (string option) io" where
  "axios_post_json url req w =
     (post_trade w url req, logged (AxiosPost url (JsonBody req)) w)"

definition Keypair_generate :: "Keypair io" where
  "Keypair_generate w = (Inr (keypairs w (generated w)), w\<lparr>generated := Suc (generated w)\<rparr>)"

definition VersionedTransaction_deserialize :: "string option \<Rightarrow> VersionedTransaction io" where
  "VersionedTransaction_deserialize data w = (deserialize w data, logged (Deserialize data) w)"

definition tx_sign :: "VersionedTransaction \<Rightarrow> Keypair list \<Rightarrow> VersionedTransaction io" where
  "tx_sign tx signers w = (sign w tx signers, logged (Sign tx signers) w)"

definition connection_sendTransaction :: "VersionedTransaction \<Rightarrow> SendOptions \<Rightarrow> string io" where
  "connection_sendTransaction tx opts w =
     (sendTransaction w tx opts, logged (SendTransaction tx opts) w)"

definition connection_confirmTransaction :: "string \<Rightarrow> string \<Rightarrow> (TransactionError option) io" where
  "connection_confirmTransaction sig commitment w =
     (confirmTransaction w sig commitment, logged (ConfirmTransaction sig commitment) w)"

section \<open>PumpPortalClient (src/solana/pumpportal.ts)\<close>

text \<open>\<open>uploadMetadata\<close>, lines 61-95: the multipart form in the order of the appends.\<close>

definition optional_field :: "string \<Rightarrow> string option \<Rightarrow> form" where
  "optional_field k v = (case v of None \<Rightarrow> [] | Some s \<Rightarrow> if s = [] then [] else [(k, Field s)])"

definition metadata_form :: "world \<Rightarrow> TokenMetadata \<Rightarrow> form" where
  "metadata_form w m =
     (let imageBuffer = (case image_payload m of
                           ImageString s \<Rightarrow> Buffer_from_base64 w s
                         | ImageBuffer b \<Rightarrow> b)
      in [(''name'', Field (name m)),
          (''symbol'', Field (symbol m)),
          (''description'', Field (description m)),
          (''file'', File imageBuffer ''image.png'' ''image/png'')]
         @ optional_field ''twitter'' (twitter m)
         @ optional_field ''telegram'' (telegram m)
         @ optional_field ''website'' (website m)
         @ [(''showName'', Field ''true'')])"

definition uploadMetadata :: "PumpPortalClient \<Rightarrow> TokenMetadata \<Rightarrow> string io" where
  "uploadMetadata c m w =
     bind_io (axios_post_form (baseUrl c @ ''/ipfs'') (metadata_form w m))
       (\<lambda>uri. case uri of
                 None \<Rightarrow> throw_io (Error ''Failed to upload metadata to IPFS'')
               | Some u \<Rightarrow> if u = [] then throw_io (Error ''Failed to upload metadata to IPFS'')
                           else return_io u) w"

text \<open>The body of the create request, lines 111-125.\<close>

definition create_request :: "PumpPortalClient \<Rightarrow> DeployOptions \<Rightarrow> string \<Rightarrow> Keypair \<Rightarrow> trade_request" where
  "create_request c options uri mintKeypair =
     \<lparr>req_publicKey = toBase58 (publicKey (wallet c)),
      req_action = ''create'',
      req_tokenMetadata = Some \<lparr>ref_name = name (metadata options),
                                ref_symbol = symbol (metadata options),
                                ref_uri = uri\<rparr>,
      req_mint = toBase58 (publicKey mintKeypair),
      req_denominatedInSol = ''true'',
      req_amount = or_number (devBuyAmount options) (Num 0),
      req_slippage = or_number (slippage options) (Num 10),
      req_priorityFee = Num (5 / 10000),
      req_pool = ''pump''\<rparr>"

definition falsy_data :: "string option \<Rightarrow> bool" where
  "falsy_data d = (case d of None \<Rightarrow> True | Some s \<Rightarrow> s = [])"

text \<open>
  \<open>deploy\<close>, lines 100-172: the \<open>try\<close> block, then the method with its \<open>catch\<close>.
  The method is an \<open>io\<close> like any other: \<open>Inl\<close> would be a rejected promise.
\<close>

definition deploy_try :: "PumpPortalClient \<Rightarrow> DeployOptions \<Rightarrow> DeployResult io" where
  "deploy_try c options =
     bind_io (uploadMetadata c (metadata options)) (\<lambda>uri.
     bind_io Keypair_generate (\<lambda>mintKeypair.
     bind_io (axios_post_json (baseUrl c @ ''/trade-local'')
                (create_request c options uri mintKeypair)) (\<lambda>data.
     if falsy_data data then throw_io (Error ''No response from PumpPortal API'')
     else
     bind_io (VersionedTransaction_deserialize data) (\<lambda>tx.
     bind_io (tx_sign tx [wallet c, mintKeypair]) (\<lambda>signed.
     bind_io (connection_sendTransaction signed
                \<lparr>skipPreflight = False, preflightCommitment = ''confirmed'',
                 maxRetries = Some 3\<rparr>) (\<lambda>sig.
     bind_io (connection_confirmTransaction sig ''confirmed'') (\<lambda>err.
     if truthy_err err
     then (\<lambda>w. throw_io (Error (''Transaction failed: '' @ JSON_stringify w err)) w)
     else return_io
            \<lparr>success = True,
             mint = Some (toBase58 (publicKey mintKeypair)),
             signature = Some sig,
             metadataUri = Some uri,
             pumpUrl = Some (''https://pump.fun/'' @ toBase58 (publicKey mintKeypair)),
             error = None\<rparr>)))))))"

definition deploy_failure :: "string \<Rightarrow> DeployResult" where
  "deploy_failure message =
     \<lparr>success = False, mint = None, signature = None, metadataUri = None,
      pumpUrl = None, error = Some message\<rparr>"

definition deploy :: "PumpPortalClient \<Rightarrow> DeployOptions \<Rightarrow> DeployResult io" where
  "deploy c options =
     try_catch (deploy_try c options)
       (\<lambda>error. return_io (deploy_failure (exn_message error)))"

text \<open>\<open>buy\<close>, lines 177-220. The default parameter \<open>slippage = 10\<close> is applied on entry.\<close>

definition buy_request :: "PumpPortalClient \<Rightarrow> string \<Rightarrow> number \<Rightarrow> number \<Rightarrow> trade_request" where
  "buy_request c mintAddress solAmount slip =
     \<lparr>req_publicKey = toBase58 (publicKey (wallet c)),
      req_action = ''buy'',
      req_tokenMetadata = None,
      req_mint = mintAddress,
      req_denominatedInSol = ''true'',
      req_amount = solAmount,
      req_slippage = slip,
      req_priorityFee = Num (5 / 10000),
      req_pool = ''pump''\<rparr>"

definition buy_try :: "PumpPortalClient \<Rightarrow> string \<Rightarrow> number \<Rightarrow> number \<Rightarrow> TradeResult io" where
  "buy_try c mintAddress solAmount slip =
     bind_io (axios_post_json (baseUrl c @ ''/trade-local'')
                (buy_request c mintAddress solAmount slip)) (\<lambda>data.
     bind_io (VersionedTransaction_deserialize data) (\<lambda>tx.
     bind_io (tx_sign tx [wallet c]) (\<lambda>signed.
     bind_io (connection_sendTransaction signed
                \<lparr>skipPreflight = False, preflightCommitment = ''confirmed'',
                 maxRetries = None\<rparr>) (\<lambda>sig.
     bind_io (connection_confirmTransaction sig ''confirmed'') (\<lambda>_.
     return_io \<lparr>trade_success = True, trade_signature = Some sig, trade_error = None\<rparr>)))))"

definition trade_failure :: "string \<Rightarrow> TradeResult" where
  "trade_failure message =
     \<lparr>trade_success = False, trade_signature = None, trade_error = Some message\<rparr>"

definition buy :: "PumpPortalClient \<Rightarrow> string \<Rightarrow> number \<Rightarrow> number option \<Rightarrow> TradeResult io" where
  "buy c mintAddress solAmount slip =
     try_catch (buy_try c mintAddress solAmount (default_param slip (Num 10)))
       (\<lambda>error. return_io (trade_failure (exn_message error)))"

text \<open>\<open>sell\<close>, lines 225-268.\<close>

definition sell_request :: "PumpPortalClient \<Rightarrow> string \<Rightarrow> number \<Rightarrow> number \<Rightarrow> trade_request" where
  "sell_request c mintAddress tokenAmount slip =
     \<lparr>req_publicKey = toBase58 (publicKey (wallet c)),
      req_action = ''sell'',
      req_tokenMetadata = None,
      req_mint = mintAddress,
      req_denominatedInSol = ''false'',
      req_amount = tokenAmount,
      req_slippage = slip,
      req_priorityFee = Num (5 / 10000),
      req_pool = ''pump''\<rparr>"

definition sell_try :: "PumpPortalClient \<Rightarrow> string \<Rightarrow> number \<Rightarrow> number \<Rightarrow> TradeResult io" where
  "sell_try c mintAddress tokenAmount slip =
     bind_io (axios_post_json (baseUrl c @ ''/trade-local'')
                (sell_request c mintAddress tokenAmount slip)) (\<lambda>data.
     bind_io (VersionedTransaction_deserialize data) (\<lambda>tx.
     bind_io (tx_sign tx [wallet c]) (\<lambda>signed.
     bind_io (connection_sendTransaction signed
                \<lparr>skipPreflight = False, preflightCommitment = ''confirmed'',
                 maxRetries = None\<rparr>) (\<lambda>sig.
     bind_io (connection_confirmTransaction sig ''confirmed'') (\<lambda>_.
     return_io \<lparr>trade_success = True, trade_signature = Some sig, trade_error = None\<rparr>)))))"

definition sell :: "PumpPortalClient \<Rightarrow> string \<Rightarrow> number \<Rightarrow> number option \<Rightarrow> TradeResult io" where
  "sell c mintAddress tokenAmount slip =
     try_catch (sell_try c mintAddress tokenAmount (default_param slip (Num 10)))
       (\<lambda>error. return_io (trade_failure (exn_message error)))"

section \<open>TurnipAgent (src/unnamed/part_007, the source of dist/agent.js)\<close>

text \<open>Of \<open>TurnipConfig\<close> (dist/index.d.ts), the two fields that the pipeline reads.\<close>

record TurnipConfig =
  defaultSlippage :: "number option"
  config_devBuyAmount :: "number option"

record TurnipAgent =
  pumpPortal :: PumpPortalClient
  config :: TurnipConfig

record GeneratedImage =
  url :: string
  base64 :: string
  prompt :: string
  revisedPrompt :: "string option"
  filePath :: "string option"

text \<open>The options object of \<open>TurnipAgent.deploy\<close>, lines 60-70.\<close>

record AgentDeployOptions =
  opt_image :: GeneratedImage
  opt_name :: string
  opt_ticker :: string
  opt_description :: "string option"
  opt_twitter :: "string option"
  opt_telegram :: "string option"
  opt_website :: "string option"
  opt_devBuyAmount :: "number option"
  opt_slippage :: "number option"

text \<open>Lines 71-79: the metadata record; lines 81-85: the call into the client.\<close>

definition agent_metadata :: "AgentDeployOptions \<Rightarrow> TokenMetadata" where
  "agent_metadata options =
     \<lparr>name = opt_name options,
      symbol = opt_ticker options,
      description = or_string (opt_description options)
                      (opt_name options @ '' - AI-generated art token''),
      image_payload = ImageString (base64 (opt_image options)),
      twitter = opt_twitter options,
      telegram = opt_telegram options,
      website = opt_website options\<rparr>"

definition TurnipAgent_deploy :: "TurnipAgent \<Rightarrow> AgentDeployOptions \<Rightarrow> DeployResult io" where
  "TurnipAgent_deploy a options =
     deploy (pumpPortal a)
       \<lparr>metadata = agent_metadata options,
        devBuyAmount = nullish (opt_devBuyAmount options) (config_devBuyAmount (config a)),
        slippage = nullish (opt_slippage options) (defaultSlippage (config a))\<rparr>"

text \<open>\<open>buyToken\<close> and \<open>sellToken\<close>, lines 164-173.\<close>

definition buyToken :: "TurnipAgent \<Rightarrow> string \<Rightarrow> number \<Rightarrow> number option \<Rightarrow> TradeResult io" where
  "buyToken a mintAddress solAmount slip =
     buy (pumpPortal a) mintAddress solAmount (nullish slip (defaultSlippage (config a)))"

definition sellToken :: "TurnipAgent \<Rightarrow> string \<Rightarrow> number \<Rightarrow> number option \<Rightarrow> TradeResult io" where
  "sellToken a mintAddress tokenAmount slip =
     sell (pumpPortal a) mintAddress tokenAmount (nullish slip (defaultSlippage (config a)))"

section \<open>Reading the log of external calls\<close>

fun trade_requests :: "call list \<Rightarrow> trade_request list" where
  "trade_requests [] = []"
| "trade_requests (AxiosPost u (JsonBody r) # cs) = r # trade_requests cs"
| "trade_requests (_ # cs) = trade_requests cs"

fun send_options :: "call list \<Rightarrow> SendOptions list" where
  "send_options [] = []"
| "send_options (SendTransaction tx opts # cs) = opts # send_options cs"
| "send_options (_ # cs) = send_options cs"

fun confirm_commitments :: "call list \<Rightarrow> string list" where
  "confirm_commitments [] = []"
| "confirm_commitments (ConfirmTransaction sig commitment # cs) = commitment # confirm_commitments cs"
| "confirm_commitments (_ # cs) = confirm_commitments cs"

fun uploaded_forms :: "call list \<Rightarrow> form list" where
  "uploaded_forms [] = []"
| "uploaded_forms (AxiosPost u (FormBody f) # cs) = f # uploaded_forms cs"
| "uploaded_forms (_ # cs) = uploaded_forms cs"

text \<open>The calls an invocation added to the log.\<close>

definition new_calls :: "world \<Rightarrow> world \<Rightarrow> call list" where
  "new_calls w w' = drop (length (calls w)) (calls w')"

section \<open>Example worlds\<close>

definition example_wallet :: Keypair where
  "example_wallet = \<lparr>publicKey = PublicKey ''Wa11et'', secretKey = [1, 2, 3]\<rparr>"

definition example_client :: PumpPortalClient where
  "example_client = \<lparr>wallet = example_wallet, baseUrl = ''https://pumpportal.fun/api''\<rparr>"

definition example_metadata :: TokenMetadata where
  "example_metadata =
     \<lparr>name = ''Cosmic Turnip'', symbol = ''CTRNP'', description = ''A turnip'',
      image_payload = ImageString ''aGk='', twitter = None, telegram = None, website = None\<rparr>"

text \<open>
  A world in which every stage answers: the upload returns a URI, the builder a body,
  the node a signature, and the confirmation carries the on-chain error \<open>err\<close>.
\<close>

definition example_world :: "TransactionError option \<Rightarrow> world" where
  "example_world err =
     \<lparr>post_ipfs = (\<lambda>u f. Inr (Some ''ipfs://meta'')),
      post_trade = (\<lambda>u r. Inr (Some ''AQID'')),
      deserialize = (\<lambda>d. Inr (VersionedTransaction [1, 2, 3] [])),
      sign = (\<lambda>tx ks. case tx of VersionedTransaction b _ \<Rightarrow> Inr (VersionedTransaction b ks)),
      sendTransaction = (\<lambda>tx opts. Inr ''5igNature''),
      confirmTransaction = (\<lambda>s c. Inr err),
      JSON_stringify = (\<lambda>e. case e of None \<Rightarrow> ''null''
                              | Some (ErrObject j) \<Rightarrow> j
                              | Some (ErrString s) \<Rightarrow> ''\"'' @ s @ ''\"''),
      Buffer_from_base64 = (\<lambda>s. [104, 105]),
      keypairs = (\<lambda>n. \<lparr>publicKey = PublicKey (''Mint'' @ replicate n CHR ''1''), secretKey = [n]\<rparr>),
      generated = 0,
      calls = []\<rparr>"

text \<open>The options of the spec's example, and a node whose broadcast throws a non-Error value.\<close>

definition example_options :: DeployOptions where
  "example_options = \<lparr>metadata = example_metadata, devBuyAmount = Some (Num (1 / 2)), slippage = Some (Num 10)\<rparr>"

definition broken_node :: world where
  "broken_node = (example_world None)\<lparr>sendTransaction := (\<lambda>tx opts. Inl NonError)\<rparr>"

text \<open>
  The world of a retry: the one the failed attempt on the broken node left behind, with
  a node that broadcasts again.
\<close>

definition retry_world :: world where
  "retry_world =
     (snd (deploy example_client example_options broken_node))
       \<lparr>sendTransaction := (\<lambda>tx opts. Inr ''5igNature'')\<rparr>"

text \<open>An on-chain error object, and an agent configured with defaults.\<close>

definition onchain_error :: TransactionError where
  "onchain_error = ErrObject ''{InstructionError:[0,{Custom:6002}]}''"

definition example_agent :: TurnipAgent where
  "example_agent =
     \<lparr>pumpPortal = example_client,
      config = \<lparr>defaultSlippage = Some (Num 10), config_devBuyAmount = Some (Num (1 / 10))\<rparr>\<rparr>"

definition example_agent_options :: AgentDeployOptions where
  "example_agent_options =
     \<lparr>opt_image = \<lparr>url = [], base64 = ''aGk='', prompt = [], revisedPrompt = None, filePath = None\<rparr>,
      opt_name = ''Sunset Token'', opt_ticker = ''SUNSET'', opt_description = None,
      opt_twitter = None, opt_telegram = None, opt_website = None,
      opt_devBuyAmount = None, opt_slippage = None\<rparr>"

section \<open>Basic facts about the model\<close>

lemmas io_defs = return_io_def throw_io_def bind_io_def try_catch_def logged_def axios_post_form_def
  axios_post_json_def Keypair_generate_def VersionedTransaction_deserialize_def tx_sign_def
  connection_sendTransaction_def connection_confirmTransaction_def

lemmas example_defs = example_world_def example_client_def example_wallet_def example_metadata_def

lemmas agent_defs = TurnipAgent_deploy_def agent_metadata_def nullish_def or_string_def
  example_agent_def example_agent_options_def buyToken_def sellToken_def onchain_error_def

lemmas eval_defs = deploy_def deploy_try_def uploadMetadata_def buy_def buy_try_def sell_def sell_try_def
  io_defs example_defs example_options_def broken_node_def falsy_data_def default_param_def
  deploy_failure_def trade_failure_def metadata_form_def optional_field_def create_request_def
  buy_request_def sell_request_def or_number_def new_calls_def

lemma new_calls_append: "calls w' = calls w @ cs \<Longrightarrow> new_calls w w' = cs"
  by (simp add: new_calls_def)

text \<open>The \<open>catch\<close> of each method, case by case.\<close>

lemma deploy_snd: "snd (deploy c options w) = snd (deploy_try c options w)"
  by (simp add: deploy_def try_catch_def return_io_def split: prod.splits sum.splits)

lemma deploy_fst_Inl:
  "fst (deploy_try c options w) = Inl e \<Longrightarrow>
     fst (deploy c options w) = Inr (deploy_failure (exn_message e))"
  by (auto simp: deploy_def try_catch_def return_io_def split: prod.splits sum.splits)

lemma deploy_fst_Inr:
  "fst (deploy_try c options w) = Inr r \<Longrightarrow> fst (deploy c options w) = Inr r"
  by (auto simp: deploy_def try_catch_def return_io_def split: prod.splits sum.splits)

lemma buy_fst:
  "fst (buy c m a s w) =
     Inr (case fst (buy_try c m a (default_param s (Num 10)) w) of
            Inr r \<Rightarrow> r | Inl e \<Rightarrow> trade_failure (exn_message e))"
  by (auto simp: buy_def try_catch_def return_io_def split: prod.splits sum.splits)

lemma sell_fst:
  "fst (sell c m a s w) =
     Inr (case fst (sell_try c m a (default_param s (Num 10)) w) of
            Inr r \<Rightarrow> r | Inl e \<Rightarrow> trade_failure (exn_message e))"
  by (auto simp: sell_def try_catch_def return_io_def split: prod.splits sum.splits)


text \<open>What the stages of \<open>deploy\<close> add to the log.\<close>

lemma uploadMetadata_snd:
  "snd (uploadMetadata c m w) = logged (AxiosPost (baseUrl c @ ''/ipfs'') (FormBody (metadata_form w m))) w"
  by (auto simp: uploadMetadata_def io_defs split: sum.splits option.splits)

lemma deploy_try_upload_Inl:
  assumes "fst (uploadMetadata c (metadata options) w) = Inl e"
  shows "deploy_try c options w = (Inl e, snd (uploadMetadata c (metadata options) w))"
  using assms by (cases "uploadMetadata c (metadata options) w") (simp add: deploy_try_def bind_io_def)

lemma deploy_try_upload_Inr:
  assumes "fst (uploadMetadata c (metadata options) w) = Inr uri"
  shows "\<exists>rest. calls (snd (deploy_try c options w)) =
           calls w @ [AxiosPost (baseUrl c @ ''/ipfs'') (FormBody (metadata_form w (metadata options))),
                      AxiosPost (baseUrl c @ ''/trade-local'')
                        (JsonBody (create_request c options uri (keypairs w (generated w))))] @ rest
         \<and> trade_requests rest = []"
  using assms unfolding deploy_try_def uploadMetadata_def io_defs
  by (auto split: sum.splits option.splits if_splits prod.splits)

lemma deploy_trade_requests:
  assumes "fst (uploadMetadata c (metadata options) w) = Inr uri"
  shows "trade_requests (new_calls w (snd (deploy c options w))) =
           [create_request c options uri (keypairs w (generated w))]"
proof -
  from deploy_try_upload_Inr [OF assms] obtain rest where
    c: "calls (snd (deploy_try c options w)) =
           calls w @ [AxiosPost (baseUrl c @ ''/ipfs'') (FormBody (metadata_form w (metadata options))),
                      AxiosPost (baseUrl c @ ''/trade-local'')
                        (JsonBody (create_request c options uri (keypairs w (generated w))))] @ rest"
    and r: "trade_requests rest = []"
    by blast
  show ?thesis
    by (simp add: deploy_snd new_calls_append [OF c] r)
qed

lemma agent_deploy_trade_requests:
  assumes "fst (uploadMetadata (pumpPortal a) (agent_metadata aopts) w) = Inr uri"
  shows "trade_requests (new_calls w (snd (TurnipAgent_deploy a aopts w))) =
           [create_request (pumpPortal a)
              \<lparr>metadata = agent_metadata aopts,
               devBuyAmount = nullish (opt_devBuyAmount aopts) (config_devBuyAmount (config a)),
               slippage = nullish (opt_slippage aopts) (defaultSlippage (config a))\<rparr>
              uri (keypairs w (generated w))]"
  unfolding TurnipAgent_deploy_def
  by (rule deploy_trade_requests) (simp add: assms)

lemma buy_trade_requests:
  "trade_requests (new_calls w (snd (buy c m a s w))) = [buy_request c m a (default_param s (Num 10))]"
  unfolding buy_def buy_try_def io_defs new_calls_def
  by (auto split: sum.splits prod.splits)

lemma sell_trade_requests:
  "trade_requests (new_calls w (snd (sell c m a s w))) = [sell_request c m a (default_param s (Num 10))]"
  unfolding sell_def sell_try_def io_defs new_calls_def
  by (auto split: sum.splits prod.splits)

lemma deploy_uploaded_forms:
  "uploaded_forms (new_calls w (snd (deploy c options w))) = [metadata_form w (metadata options)]"
  unfolding deploy_def deploy_try_def uploadMetadata_def io_defs new_calls_def
  by (auto split: sum.splits prod.splits option.splits if_splits)

text \<open>No method changes the generator; only \<open>deploy\<close> draws from it, at most once.\<close>

lemma deploy_generator:
  "keypairs (snd (deploy c options w)) = keypairs w \<and>
   generated w \<le> generated (snd (deploy c options w)) \<and>
   generated (snd (deploy c options w)) \<le> Suc (generated w)"
  unfolding deploy_def deploy_try_def uploadMetadata_def io_defs
  by (auto split: sum.splits prod.splits option.splits if_splits)

lemma buy_generator:
  "keypairs (snd (buy c m a s w)) = keypairs w \<and> generated (snd (buy c m a s w)) = generated w"
  unfolding buy_def buy_try_def io_defs
  by (auto split: sum.splits prod.splits)

lemma sell_generator:
  "keypairs (snd (sell c m a s w)) = keypairs w \<and> generated (snd (sell c m a s w)) = generated w"
  unfolding sell_def sell_try_def io_defs
  by (auto split: sum.splits prod.splits)

section \<open>On-chain errors of the confirmation\<close>

lemma deploy_onchain_error:
  assumes "post_ipfs w (baseUrl c @ ''/ipfs'') (metadata_form w (metadata options)) = Inr (Some uri)"
    and "uri \<noteq> []"
    and "mintKeypair = keypairs w (generated w)"
    and "post_trade w (baseUrl c @ ''/trade-local'') (create_request c options uri mintKeypair) = Inr (Some data)"
    and "data \<noteq> []"
    and "deserialize w (Some data) = Inr tx"
    and "sign w tx [wallet c, mintKeypair] = Inr signed"
    and "sendTransaction w signed
           \<lparr>skipPreflight = False, preflightCommitment = ''confirmed'', maxRetries = Some 3\<rparr> = Inr sig"
    and "confirmTransaction w sig ''confirmed'' = Inr err"
    and "truthy_err err"
  shows "fst (deploy c options w) =
           Inr \<lparr>success = False, mint = None, signature = None, metadataUri = None, pumpUrl = None,
                error = Some (''Transaction failed: '' @ JSON_stringify w err)\<rparr>"
  using assms unfolding deploy_def deploy_try_def uploadMetadata_def io_defs
  by (simp add: falsy_data_def deploy_failure_def)

lemma buy_ignores_confirmation_value:
  assumes "post_trade w (baseUrl c @ ''/trade-local'') (buy_request c m a (default_param s (Num 10))) = Inr data"
    and "deserialize w data = Inr tx"
    and "sign w tx [wallet c] = Inr signed"
    and "sendTransaction w signed
           \<lparr>skipPreflight = False, preflightCommitment = ''confirmed'', maxRetries = None\<rparr> = Inr sig"
    and "confirmTransaction w sig ''confirmed'' = Inr err"
  shows "fst (buy c m a s w) =
           Inr \<lparr>trade_success = True, trade_signature = Some sig, trade_error = None\<rparr>"
  using assms unfolding buy_def buy_try_def io_defs
  by simp

lemma sell_ignores_confirmation_value:
  assumes "post_trade w (baseUrl c @ ''/trade-local'') (sell_request c m a (default_param s (Num 10))) = Inr data"
    and "deserialize w data = Inr tx"
    and "sign w tx [wallet c] = Inr signed"
    and "sendTransaction w signed
           \<lparr>skipPreflight = False, preflightCommitment = ''confirmed'', maxRetries = None\<rparr> = Inr sig"
    and "confirmTransaction w sig ''confirmed'' = Inr err"
  shows "fst (sell c m a s w) =
           Inr \<lparr>trade_success = True, trade_signature = Some sig, trade_error = None\<rparr>"
  using assms unfolding sell_def sell_try_def io_defs
  by simp

text \<open>
  C1. The claim asks every pipeline to turn a non-null on-chain error of the
  confirmation into a failure. Evaluated in a world where every stage answers and the
  confirmation carries an error object: \<open>deploy\<close> returns the failure built from the
  error, but \<open>buy\<close> and \<open>sell\<close> discard the confirmation and return
  \<open>success = true\<close> with the signature.
\<close>

theorem trades_report_success_despite_onchain_error:
  "fst (buy example_client ''Mint'' (Num 1) None (example_world (Some onchain_error))) =
     Inr \<lparr>trade_success = True, trade_signature = Some ''5igNature'', trade_error = None\<rparr> \<and>
   fst (sell example_client ''Mint'' (Num 1) None (example_world (Some onchain_error))) =
     Inr \<lparr>trade_success = True, trade_signature = Some ''5igNature'', trade_error = None\<rparr> \<and>
   fst (deploy example_client example_options (example_world (Some onchain_error))) =
     Inr \<lparr>success = False, mint = None, signature = None, metadataUri = None, pumpUrl = None,
          error = Some ''Transaction failed: {InstructionError:[0,{Custom:6002}]}''\<rparr>"
  by (simp add: eval_defs onchain_error_def)

section \<open>Slippage in the trade request\<close>

lemma create_slippage:
  "req_slippage (create_request c options uri k) =
     (case slippage options of None \<Rightarrow> Num 10 | Some v \<Rightarrow> if falsy_number v then Num 10 else v)"
  by (simp add: create_request_def or_number_def)

lemma trade_slippage_default_and_zero:
  "map req_slippage (trade_requests (new_calls w (snd (buy c m a None w)))) = [Num 10] \<and>
   map req_slippage (trade_requests (new_calls w (snd (buy c m a (Some (Num 0)) w)))) = [Num 0] \<and>
   map req_slippage (trade_requests (new_calls w (snd (sell c m a None w)))) = [Num 10] \<and>
   map req_slippage (trade_requests (new_calls w (snd (sell c m a (Some (Num 0)) w)))) = [Num 0]"
  by (simp add: buy_trade_requests sell_trade_requests buy_request_def sell_request_def default_param_def)

text \<open>
  C2. The claim asks that an explicit slippage of 0 reach the trade request as 0.
  Evaluated with \<open>slippage = 0\<close>: the create request of \<open>deploy\<close> carries 10, also
  when the call comes through the agent, whose \<open>??\<close> had kept the 0; the request of
  \<open>buy\<close> carries 0.
\<close>

theorem deploy_coerces_zero_slippage_to_default:
  "map req_slippage (trade_requests (new_calls (example_world None)
      (snd (deploy example_client (example_options\<lparr>slippage := Some (Num 0)\<rparr>) (example_world None))))) = [Num 10] \<and>
   map req_slippage (trade_requests (new_calls (example_world None)
      (snd (TurnipAgent_deploy example_agent (example_agent_options\<lparr>opt_slippage := Some (Num 0)\<rparr>)
             (example_world None))))) = [Num 10] \<and>
   map req_slippage (trade_requests (new_calls (example_world None)
      (snd (buy example_client ''Mint'' (Num 1) (Some (Num 0)) (example_world None))))) = [Num 0]"
  by (simp add: eval_defs agent_defs)

section \<open>The successful deployment\<close>

text \<open>
  C3. When the upload returns a URI, the builder a body, and deserialization, signing,
  broadcast and confirmation (with a null on-chain error) all succeed, \<open>deploy\<close> returns
  the success record: the base58 address of the keypair generated in this invocation,
  the broadcast signature, the uploaded metadata URI, and \<open>https://pump.fun/\<close> followed
  by that address. The address and the signature are non-empty as the library and the
  node return them.
\<close>

theorem deploy_all_stages_succeed:
  assumes "post_ipfs w (baseUrl c @ ''/ipfs'') (metadata_form w (metadata options)) = Inr (Some uri)"
    and "uri \<noteq> []"
    and "mintKeypair = keypairs w (generated w)"
    and "post_trade w (baseUrl c @ ''/trade-local'') (create_request c options uri mintKeypair) = Inr (Some data)"
    and "data \<noteq> []"
    and "deserialize w (Some data) = Inr tx"
    and "sign w tx [wallet c, mintKeypair] = Inr signed"
    and "sendTransaction w signed
           \<lparr>skipPreflight = False, preflightCommitment = ''confirmed'', maxRetries = Some 3\<rparr> = Inr sig"
    and "confirmTransaction w sig ''confirmed'' = Inr None"
    and "toBase58 (publicKey mintKeypair) \<noteq> []"
    and "sig \<noteq> []"
  shows "\<exists>r. fst (deploy c options w) = Inr r \<and>
           success r \<and>
           mint r = Some (toBase58 (publicKey mintKeypair)) \<and> mint r \<noteq> Some [] \<and>
           signature r = Some sig \<and> signature r \<noteq> Some [] \<and>
           metadataUri r = Some uri \<and>
           pumpUrl r = Some (''https://pump.fun/'' @ toBase58 (publicKey mintKeypair)) \<and>
           error r = None"
  using assms unfolding deploy_def deploy_try_def uploadMetadata_def io_defs
  by (simp add: falsy_data_def)

theorem deploy_all_stages_succeed_witness:
  "fst (deploy example_client example_options (example_world None)) =
     Inr \<lparr>success = True, mint = Some ''Mint'', signature = Some ''5igNature'',
          metadataUri = Some ''ipfs://meta'', pumpUrl = Some ''https://pump.fun/Mint'', error = None\<rparr>"
proof -
  let ?w = "example_world None"
  let ?k = "\<lparr>publicKey = PublicKey ''Mint'', secretKey = [0]\<rparr>"
  have h1: "post_ipfs ?w (baseUrl example_client @ ''/ipfs'') (metadata_form ?w (metadata example_options)) =
              Inr (Some ''ipfs://meta'')"
    by (simp add: example_defs)
  have h2: "''ipfs://meta'' \<noteq> []" by simp
  have h3: "?k = keypairs ?w (generated ?w)" by (simp add: example_defs)
  have h4: "post_trade ?w (baseUrl example_client @ ''/trade-local'')
              (create_request example_client example_options ''ipfs://meta'' ?k) = Inr (Some ''AQID'')"
    by (simp add: example_defs)
  have h5: "''AQID'' \<noteq> []" by simp
  have h6: "deserialize ?w (Some ''AQID'') = Inr (VersionedTransaction [1, 2, 3] [])"
    by (simp add: example_defs)
  have h7: "sign ?w (VersionedTransaction [1, 2, 3] []) [wallet example_client, ?k] =
              Inr (VersionedTransaction [1, 2, 3] [wallet example_client, ?k])"
    by (simp add: example_defs)
  have h8: "sendTransaction ?w (VersionedTransaction [1, 2, 3] [wallet example_client, ?k])
              \<lparr>skipPreflight = False, preflightCommitment = ''confirmed'', maxRetries = Some 3\<rparr> = Inr ''5igNature''"
    by (simp add: example_defs)
  have h9: "confirmTransaction ?w ''5igNature'' ''confirmed'' = Inr None"
    by (simp add: example_defs)
  have h10: "toBase58 (publicKey ?k) \<noteq> []" by simp
  have h11: "''5igNature'' \<noteq> []" by simp
  from deploy_all_stages_succeed [OF h1 h2 h3 h4 h5 h6 h7 h8 h9 h10 h11]
  obtain r where "fst (deploy example_client example_options ?w) = Inr r"
    and "success r" and "mint r = Some ''Mint''" and "signature r = Some ''5igNature''"
    and "metadataUri r = Some ''ipfs://meta''" and "pumpUrl r = Some ''https://pump.fun/Mint''"
    and "error r = None"
    by auto
  then show ?thesis by simp
qed

section \<open>A failed upload stops the pipeline\<close>

text \<open>
  C4. When \<open>uploadMetadata\<close> throws inside \<open>deploy\<close>, the invocation returns the
  failure record carrying the message of the thrown error, the only external call it
  made is the upload itself (no post to the trade endpoint, no deserialization, no
  signing, no broadcast, no confirmation), and no mint keypair was drawn.
\<close>

theorem deploy_upload_failure_stops_pipeline:
  assumes "fst (uploadMetadata c (metadata options) w) = Inl e"
  shows "fst (deploy c options w) =
           Inr \<lparr>success = False, mint = None, signature = None, metadataUri = None,
                pumpUrl = None, error = Some (exn_message e)\<rparr>
         \<and> new_calls w (snd (deploy c options w)) =
             [AxiosPost (baseUrl c @ ''/ipfs'') (FormBody (metadata_form w (metadata options)))]
         \<and> generated (snd (deploy c options w)) = generated w"
proof -
  have t: "deploy_try c options w = (Inl e, snd (uploadMetadata c (metadata options) w))"
    using assms by (rule deploy_try_upload_Inl)
  have r: "fst (deploy c options w) = Inr (deploy_failure (exn_message e))"
    by (rule deploy_fst_Inl) (simp add: t)
  have s: "snd (deploy c options w) =
             logged (AxiosPost (baseUrl c @ ''/ipfs'') (FormBody (metadata_form w (metadata options)))) w"
    by (simp add: deploy_snd t uploadMetadata_snd)
  show ?thesis
    by (simp add: r s deploy_failure_def logged_def new_calls_def)
qed

theorem deploy_upload_failure_stops_pipeline_witness:
  "fst (deploy example_client example_options
          ((example_world None)\<lparr>post_ipfs := (\<lambda>u f. Inl (Error ''Request failed with status code 500''))\<rparr>)) =
     Inr \<lparr>success = False, mint = None, signature = None, metadataUri = None,
          pumpUrl = None, error = Some ''Request failed with status code 500''\<rparr>
   \<and> trade_requests (new_calls ((example_world None)\<lparr>post_ipfs := (\<lambda>u f. Inl (Error ''Request failed with status code 500''))\<rparr>)
        (snd (deploy example_client example_options
          ((example_world None)\<lparr>post_ipfs := (\<lambda>u f. Inl (Error ''Request failed with status code 500''))\<rparr>)))) = []"
proof -
  let ?w = "(example_world None)\<lparr>post_ipfs := (\<lambda>u f. Inl (Error ''Request failed with status code 500''))\<rparr>"
  have h: "fst (uploadMetadata example_client (metadata example_options) ?w) =
             Inl (Error ''Request failed with status code 500'')"
    by (simp add: uploadMetadata_def io_defs example_defs)
  from deploy_upload_failure_stops_pipeline [OF h] show ?thesis
    by simp
qed

section \<open>Results are closed records\<close>

lemma deploy_try_Inr:
  "fst (deploy_try c options w) = Inr r \<Longrightarrow> success r \<and> error r = None"
  unfolding deploy_try_def uploadMetadata_def io_defs
  by (auto split: sum.splits option.splits if_splits prod.splits)

lemma buy_try_Inr:
  "fst (buy_try c m a s w) = Inr r \<Longrightarrow> trade_success r \<and> trade_error r = None"
  unfolding buy_try_def io_defs
  by (auto split: sum.splits option.splits if_splits prod.splits)

lemma sell_try_Inr:
  "fst (sell_try c m a s w) = Inr r \<Longrightarrow> trade_success r \<and> trade_error r = None"
  unfolding sell_try_def io_defs
  by (auto split: sum.splits option.splits if_splits prod.splits)

lemma deploy_closed:
  assumes "fst (deploy c options w) = Inr r"
  shows "(success r \<longrightarrow> error r = None) \<and>
         (\<not> success r \<longrightarrow>
            error r \<noteq> None \<and> mint r = None \<and> signature r = None \<and>
            metadataUri r = None \<and> pumpUrl r = None)"
proof (cases "fst (deploy_try c options w)")
  case (Inl e)
  then show ?thesis using assms by (auto simp: deploy_fst_Inl deploy_failure_def)
next
  case (Inr r')
  then show ?thesis using assms deploy_try_Inr [OF Inr] by (simp add: deploy_fst_Inr)
qed

lemma buy_closed:
  assumes "fst (buy c m a s w) = Inr t"
  shows "(trade_success t \<longrightarrow> trade_error t = None) \<and>
         (\<not> trade_success t \<longrightarrow> trade_error t \<noteq> None \<and> trade_signature t = None)"
proof (cases "fst (buy_try c m a (default_param s (Num 10)) w)")
  case (Inl e)
  then show ?thesis using assms by (auto simp: buy_fst trade_failure_def)
next
  case (Inr r')
  then show ?thesis using assms buy_try_Inr [OF Inr] by (simp add: buy_fst)
qed

lemma sell_closed:
  assumes "fst (sell c m a s w) = Inr t"
  shows "(trade_success t \<longrightarrow> trade_error t = None) \<and>
         (\<not> trade_success t \<longrightarrow> trade_error t \<noteq> None \<and> trade_signature t = None)"
proof (cases "fst (sell_try c m a (default_param s (Num 10)) w)")
  case (Inl e)
  then show ?thesis using assms by (auto simp: sell_fst trade_failure_def)
next
  case (Inr r')
  then show ?thesis using assms sell_try_Inr [OF Inr] by (simp add: sell_fst)
qed

text \<open>
  C5. Every result returned by \<open>deploy\<close>, \<open>buy\<close> or \<open>sell\<close> is closed: with
  \<open>success = true\<close> the error field is absent; with \<open>success = false\<close> the error
  is present and every success field is absent (mint, signature, metadata URI and
  display URL; the result type of a trade has the signature only).
\<close>

theorem results_are_closed_records:
  "(fst (deploy c options w) = Inr r \<longrightarrow>
      (success r \<longrightarrow> error r = None) \<and>
      (\<not> success r \<longrightarrow>
         error r \<noteq> None \<and> mint r = None \<and> signature r = None \<and>
         metadataUri r = None \<and> pumpUrl r = None)) \<and>
   (fst (buy c m a s w) = Inr t \<longrightarrow>
      (trade_success t \<longrightarrow> trade_error t = None) \<and>
      (\<not> trade_success t \<longrightarrow> trade_error t \<noteq> None \<and> trade_signature t = None)) \<and>
   (fst (sell c m a s w) = Inr t' \<longrightarrow>
      (trade_success t' \<longrightarrow> trade_error t' = None) \<and>
      (\<not> trade_success t' \<longrightarrow> trade_error t' \<noteq> None \<and> trade_signature t' = None))"
  using deploy_closed [of c options w r] buy_closed [of c m a s w t] sell_closed [of c m a s w t']
  by blast

theorem results_are_closed_records_witness:
  "fst (deploy example_client example_options (example_world None)) =
     Inr \<lparr>success = True, mint = Some ''Mint'', signature = Some ''5igNature'',
          metadataUri = Some ''ipfs://meta'', pumpUrl = Some ''https://pump.fun/Mint'', error = None\<rparr> \<and>
   fst (deploy example_client example_options broken_node) =
     Inr \<lparr>success = False, mint = None, signature = None, metadataUri = None, pumpUrl = None,
          error = Some ''Unknown error''\<rparr> \<and>
   fst (buy example_client ''Mint'' (Num 1) None (example_world None)) =
     Inr \<lparr>trade_success = True, trade_signature = Some ''5igNature'', trade_error = None\<rparr> \<and>
   fst (sell example_client ''Mint'' (Num 1) None broken_node) =
     Inr \<lparr>trade_success = False, trade_signature = None, trade_error = Some ''Unknown error''\<rparr>"
proof -
  let ?ok = "\<lparr>success = True, mint = Some ''Mint'', signature = Some ''5igNature'',
              metadataUri = Some ''ipfs://meta'', pumpUrl = Some ''https://pump.fun/Mint'', error = None\<rparr>"
  let ?bad = "\<lparr>success = False, mint = None, signature = None, metadataUri = None, pumpUrl = None,
               error = Some ''Unknown error''\<rparr>"
  let ?bought = "\<lparr>trade_success = True, trade_signature = Some ''5igNature'', trade_error = None\<rparr>"
  let ?unsold = "\<lparr>trade_success = False, trade_signature = None, trade_error = Some ''Unknown error''\<rparr>"
  have d1: "fst (deploy example_client example_options (example_world None)) = Inr ?ok"
    by (simp add: eval_defs)
  have d2: "fst (deploy example_client example_options broken_node) = Inr ?bad"
    by (simp add: eval_defs)
  have b1: "fst (buy example_client ''Mint'' (Num 1) None (example_world None)) = Inr ?bought"
    by (simp add: eval_defs)
  have b2: "fst (buy example_client ''Mint'' (Num 1) None broken_node) = Inr ?unsold"
    by (simp add: eval_defs)
  have s1: "fst (sell example_client ''Mint'' (Num 1) None (example_world None)) = Inr ?bought"
    by (simp add: eval_defs)
  have s2: "fst (sell example_client ''Mint'' (Num 1) None broken_node) = Inr ?unsold"
    by (simp add: eval_defs)
  have "error ?ok = None \<and> trade_error ?bought = None"
    using d1 b1 s1
      results_are_closed_records
        [of example_client example_options "example_world None" ?ok "''Mint''" "Num 1" None ?bought ?bought]
    by simp
  moreover have "error ?bad \<noteq> None \<and> mint ?bad = None \<and> trade_error ?unsold \<noteq> None \<and>
                 trade_signature ?unsold = None"
    using d2 b2 s2
      results_are_closed_records
        [of example_client example_options broken_node ?bad "''Mint''" "Num 1" None ?unsold ?unsold]
    by simp
  ultimately show ?thesis using d1 d2 b1 s2 by simp
qed

section \<open>Exceptions never leave the methods\<close>





section \<open>Options of broadcast and confirmation\<close>

lemma deploy_send_options:
  "set (send_options (new_calls w (snd (deploy c options w)))) \<subseteq>
     {\<lparr>skipPreflight = False, preflightCommitment = ''confirmed'', maxRetries = Some 3\<rparr>}"
  unfolding deploy_def deploy_try_def uploadMetadata_def io_defs new_calls_def
  by (auto split: sum.splits prod.splits option.splits if_splits)

lemma buy_send_options:
  "set (send_options (new_calls w (snd (buy c m a s w)))) \<subseteq>
     {\<lparr>skipPreflight = False, preflightCommitment = ''confirmed'', maxRetries = None\<rparr>}"
  unfolding buy_def buy_try_def io_defs new_calls_def
  by (auto split: sum.splits prod.splits)

lemma sell_send_options:
  "set (send_options (new_calls w (snd (sell c m a s w)))) \<subseteq>
     {\<lparr>skipPreflight = False, preflightCommitment = ''confirmed'', maxRetries = None\<rparr>}"
  unfolding sell_def sell_try_def io_defs new_calls_def
  by (auto split: sum.splits prod.splits)

lemma deploy_confirm_commitments:
  "set (confirm_commitments (new_calls w (snd (deploy c options w)))) \<subseteq> {''confirmed''}"
  unfolding deploy_def deploy_try_def uploadMetadata_def io_defs new_calls_def
  by (auto split: sum.splits prod.splits option.splits if_splits)

lemma buy_confirm_commitments:
  "set (confirm_commitments (new_calls w (snd (buy c m a s w)))) \<subseteq> {''confirmed''}"
  unfolding buy_def buy_try_def io_defs new_calls_def
  by (auto split: sum.splits prod.splits)

lemma sell_confirm_commitments:
  "set (confirm_commitments (new_calls w (snd (sell c m a s w)))) \<subseteq> {''confirmed''}"
  unfolding sell_def sell_try_def io_defs new_calls_def
  by (auto split: sum.splits prod.splits)

text \<open>
  C7. The claim asks every broadcast to pass \<open>maxRetries = 3\<close>. Evaluated in a
  world where every stage answers: the options that \<open>buy\<close> and \<open>sell\<close> hand to
  \<open>sendTransaction\<close> carry no \<open>maxRetries\<close>; those of \<open>deploy\<close> carry 3. Every
  confirmation is asked at \<open>confirmed\<close>.
\<close>

theorem trades_broadcast_without_retry_budget:
  "send_options (new_calls (example_world None)
      (snd (buy example_client ''Mint'' (Num 1) None (example_world None)))) =
     [\<lparr>skipPreflight = False, preflightCommitment = ''confirmed'', maxRetries = None\<rparr>] \<and>
   send_options (new_calls (example_world None)
      (snd (sell example_client ''Mint'' (Num 1) None (example_world None)))) =
     [\<lparr>skipPreflight = False, preflightCommitment = ''confirmed'', maxRetries = None\<rparr>] \<and>
   send_options (new_calls (example_world None)
      (snd (deploy example_client example_options (example_world None)))) =
     [\<lparr>skipPreflight = False, preflightCommitment = ''confirmed'', maxRetries = Some 3\<rparr>] \<and>
   confirm_commitments (new_calls (example_world None)
      (snd (buy example_client ''Mint'' (Num 1) None (example_world None)))) = [''confirmed'']"
  by (simp add: eval_defs)

section \<open>The amount of the create request\<close>

lemma agent_metadata_devBuyAmount:
  "agent_metadata (aopts\<lparr>opt_devBuyAmount := d\<rparr>) = agent_metadata aopts"
  by (simp add: agent_metadata_def)

text \<open>
  C8. Whenever the upload succeeds, so that a create request is built: with
  \<open>devBuyAmount\<close> omitted the one request posted by \<open>deploy\<close> has amount 0; with
  \<open>devBuyAmount = 0\<close> it has amount 0; and with \<open>devBuyAmount = 0\<close> passed to the
  agent's \<open>deploy\<close> it has amount 0 whatever default the agent's configuration holds.
\<close>

theorem create_amount_defaults_to_zero:
  assumes "fst (uploadMetadata c (metadata options) w) = Inr uri"
    and "fst (uploadMetadata (pumpPortal a) (agent_metadata aopts) w') = Inr uri'"
  shows "map req_amount (trade_requests (new_calls w
           (snd (deploy c (options\<lparr>devBuyAmount := None\<rparr>) w)))) = [Num 0] \<and>
         map req_amount (trade_requests (new_calls w
           (snd (deploy c (options\<lparr>devBuyAmount := Some (Num 0)\<rparr>) w)))) = [Num 0] \<and>
         map req_amount (trade_requests (new_calls w'
           (snd (TurnipAgent_deploy a (aopts\<lparr>opt_devBuyAmount := Some (Num 0)\<rparr>) w')))) = [Num 0]"
proof -
  have u: "fst (uploadMetadata c (metadata (options\<lparr>devBuyAmount := d\<rparr>)) w) = Inr uri" for d
    using assms(1) by simp
  have v: "fst (uploadMetadata (pumpPortal a) (agent_metadata (aopts\<lparr>opt_devBuyAmount := d\<rparr>)) w') = Inr uri'" for d
    using assms(2) by (simp add: agent_metadata_devBuyAmount)
  show ?thesis
    by (simp add: deploy_trade_requests [OF u] agent_deploy_trade_requests [OF v]
          create_request_def or_number_def nullish_def)
qed

theorem create_amount_defaults_to_zero_witness:
  "map req_amount (trade_requests (new_calls (example_world None)
     (snd (deploy example_client (example_options\<lparr>devBuyAmount := None\<rparr>) (example_world None))))) = [Num 0] \<and>
   map req_amount (trade_requests (new_calls (example_world None)
     (snd (deploy example_client (example_options\<lparr>devBuyAmount := Some (Num 0)\<rparr>) (example_world None))))) = [Num 0] \<and>
   config_devBuyAmount (config example_agent) = Some (Num (1 / 10)) \<and>
   map req_amount (trade_requests (new_calls (example_world None)
     (snd (TurnipAgent_deploy example_agent (example_agent_options\<lparr>opt_devBuyAmount := Some (Num 0)\<rparr>)
            (example_world None))))) = [Num 0]"
proof -
  have h1: "fst (uploadMetadata example_client (metadata example_options) (example_world None)) = Inr ''ipfs://meta''"
    by (simp add: uploadMetadata_def io_defs example_defs example_options_def)
  have h2: "fst (uploadMetadata (pumpPortal example_agent) (agent_metadata example_agent_options)
              (example_world None)) = Inr ''ipfs://meta''"
    by (simp add: uploadMetadata_def io_defs example_defs agent_defs)
  from create_amount_defaults_to_zero [OF h1 h2] show ?thesis
    by (simp add: example_agent_def)
qed

text \<open>
  An amount omitted at the agent is taken from the agent's configuration before the
  client sees it.
\<close>

lemma agent_omitted_devBuyAmount_uses_config:
  assumes "fst (uploadMetadata (pumpPortal a) (agent_metadata aopts) w) = Inr uri"
  shows "map req_amount (trade_requests (new_calls w
           (snd (TurnipAgent_deploy a (aopts\<lparr>opt_devBuyAmount := None\<rparr>) w)))) =
         [or_number (config_devBuyAmount (config a)) (Num 0)]"
proof -
  have v: "fst (uploadMetadata (pumpPortal a) (agent_metadata (aopts\<lparr>opt_devBuyAmount := None\<rparr>)) w) = Inr uri"
    using assms by (simp add: agent_metadata_devBuyAmount)
  show ?thesis
    by (simp add: agent_deploy_trade_requests [OF v] create_request_def nullish_def)
qed

section \<open>A fresh mint keypair for every deployment\<close>

lemma deploy_try_Inr_mint:
  assumes "fst (deploy_try c options w) = Inr r"
  shows "mint r = Some (toBase58 (publicKey (keypairs w (generated w))))
         \<and> pumpUrl r = Some (''https://pump.fun/'' @ toBase58 (publicKey (keypairs w (generated w))))"
  using assms unfolding deploy_try_def uploadMetadata_def io_defs
  by (auto split: sum.splits option.splits if_splits prod.splits)

lemma deploy_success_try:
  assumes "fst (deploy c options w) = Inr r" and "success r"
  shows "fst (deploy_try c options w) = Inr r"
  using assms
  by (auto simp: deploy_def try_catch_def return_io_def deploy_failure_def split: prod.splits sum.splits)

lemma deploy_success_mint:
  assumes "fst (deploy c options w) = Inr r" and "success r"
  shows "mint r = Some (toBase58 (publicKey (keypairs w (generated w))))"
  using deploy_try_Inr_mint [OF deploy_success_try [OF assms]] by simp

text \<open>A successful attempt got past the upload.\<close>

lemma deploy_success_past_upload:
  assumes "fst (deploy c options w) = Inr r" and "success r"
  shows "\<exists>uri. fst (uploadMetadata c (metadata options) w) = Inr uri"
proof (cases "fst (uploadMetadata c (metadata options) w)")
  case (Inl e)
  have "fst (deploy_try c options w) = Inl e"
    by (simp add: deploy_try_upload_Inl [OF Inl])
  with deploy_success_try [OF assms] show ?thesis by simp
next
  case (Inr uri)
  then show ?thesis by blast
qed

text \<open>
  An attempt that got past the upload has drawn one keypair, whatever happens to it
  afterwards, and the one create request it posts carries the address of that draw.
\<close>

lemma deploy_past_upload_generated:
  assumes "fst (uploadMetadata c (metadata options) w) = Inr uri"
  shows "generated (snd (deploy c options w)) = Suc (generated w)"
  using assms unfolding deploy_def deploy_try_def uploadMetadata_def io_defs
  by (auto split: sum.splits option.splits if_splits prod.splits)

lemma deploy_past_upload_request_mint:
  assumes "fst (uploadMetadata c (metadata options) w) = Inr uri"
  shows "map req_mint (trade_requests (new_calls w (snd (deploy c options w)))) =
           [toBase58 (publicKey (keypairs w (generated w)))]"
  by (simp add: deploy_trade_requests [OF assms] create_request_def)

text \<open>An attempt whose upload fails draws no keypair and sends no mint address.\<close>

lemma deploy_upload_failure_draws_nothing:
  assumes "fst (uploadMetadata c (metadata options) w) = Inl e"
  shows "generated (snd (deploy c options w)) = generated w \<and>
         trade_requests (new_calls w (snd (deploy c options w))) = []"
proof -
  have "snd (deploy c options w) =
          logged (AxiosPost (baseUrl c @ ''/ipfs'') (FormBody (metadata_form w (metadata options)))) w"
    by (simp add: deploy_snd deploy_try_upload_Inl [OF assms] uploadMetadata_snd)
  then show ?thesis
    by (simp add: logged_def new_calls_def)
qed

text \<open>
  C9. Take any two attempts of one run that get past the upload: a \<open>deploy\<close> from
  world \<open>w\<close> and a \<open>deploy\<close> from any later world \<open>v\<close>, each succeeding or failing.
  Each draws its mint keypair inside the invocation and consumes the draw whatever
  its outcome, so the later attempt draws at a later index and a failed attempt's
  keypair is never drawn again; each uses its own draw for the request it posts and,
  when it succeeds, for the result; the client is a value that no invocation
  changes. When the two drawn keypairs have different public keys, the two requests
  carry different mint addresses, and so do the two success records when both
  attempts succeed.
\<close>

theorem deploy_mint_keypair_fresh:
  assumes "fst (uploadMetadata c (metadata options) w) = Inr uri"
    and "deploy c options w = (x, w')"
    and "keypairs v = keypairs w"
    and "generated w' \<le> generated v"
    and "fst (uploadMetadata c' (metadata options') v) = Inr uri'"
    and "deploy c' options' v = (x', v')"
  shows "generated w' = Suc (generated w) \<and>
         map req_mint (trade_requests (new_calls w w')) =
           [toBase58 (publicKey (keypairs w (generated w)))] \<and>
         (x = Inr r \<and> success r \<longrightarrow>
            mint r = Some (toBase58 (publicKey (keypairs w (generated w))))) \<and>
         generated w < generated v \<and>
         generated v' = Suc (generated v) \<and>
         map req_mint (trade_requests (new_calls v v')) =
           [toBase58 (publicKey (keypairs w (generated v)))] \<and>
         (x' = Inr r' \<and> success r' \<longrightarrow>
            mint r' = Some (toBase58 (publicKey (keypairs w (generated v))))) \<and>
         (publicKey (keypairs w (generated w)) \<noteq> publicKey (keypairs w (generated v)) \<longrightarrow>
            map req_mint (trade_requests (new_calls w w')) \<noteq>
              map req_mint (trade_requests (new_calls v v')) \<and>
            (x = Inr r \<and> success r \<and> x' = Inr r' \<and> success r' \<longrightarrow> mint r \<noteq> mint r'))"
proof -
  have w': "w' = snd (deploy c options w)" and x: "x = fst (deploy c options w)"
    using assms(2) by simp_all
  have v': "v' = snd (deploy c' options' v)" and x': "x' = fst (deploy c' options' v)"
    using assms(6) by simp_all
  have g1: "generated w' = Suc (generated w)"
    unfolding w' by (rule deploy_past_upload_generated [OF assms(1)])
  have q1: "map req_mint (trade_requests (new_calls w w')) =
              [toBase58 (publicKey (keypairs w (generated w)))]"
    unfolding w' by (rule deploy_past_upload_request_mint [OF assms(1)])
  have m1: "mint r = Some (toBase58 (publicKey (keypairs w (generated w))))"
    if "x = Inr r" and "success r"
    using deploy_success_mint [of c options w r] that x by simp
  have later: "generated w < generated v"
    using g1 assms(4) by simp
  have g2: "generated v' = Suc (generated v)"
    unfolding v' by (rule deploy_past_upload_generated [OF assms(5)])
  have q2: "map req_mint (trade_requests (new_calls v v')) =
              [toBase58 (publicKey (keypairs w (generated v)))]"
    unfolding v' using deploy_past_upload_request_mint [OF assms(5)] by (simp add: assms(3))
  have m2: "mint r' = Some (toBase58 (publicKey (keypairs w (generated v))))"
    if "x' = Inr r'" and "success r'"
    using deploy_success_mint [of c' options' v r'] that x' by (simp add: assms(3))
  have distinct: "toBase58 (publicKey (keypairs w (generated w))) \<noteq>
                  toBase58 (publicKey (keypairs w (generated v)))"
    if "publicKey (keypairs w (generated w)) \<noteq> publicKey (keypairs w (generated v))"
    using that by (auto dest: PublicKey.expand)
  show ?thesis
    using g1 q1 m1 later g2 q2 m2 distinct by simp
qed

theorem deploy_mint_keypair_fresh_witness:
  "fst (deploy example_client example_options broken_node) =
     Inr \<lparr>success = False, mint = None, signature = None, metadataUri = None, pumpUrl = None,
          error = Some ''Unknown error''\<rparr> \<and>
   map req_mint (trade_requests (new_calls broken_node
     (snd (deploy example_client example_options broken_node)))) = [''Mint''] \<and>
   generated retry_world = Suc 0 \<and>
   map req_mint (trade_requests (new_calls retry_world
     (snd (deploy example_client example_options retry_world)))) = [''Mint1''] \<and>
   mint (projr (fst (deploy example_client example_options retry_world))) = Some ''Mint1'' \<and>
   mint (projr (fst (deploy example_client example_options (example_world None)))) = Some ''Mint'' \<and>
   mint (projr (fst (deploy example_client example_options
               (snd (buy example_client ''Mint'' (Num 1) None
                  (snd (deploy example_client example_options (example_world None)))))))) = Some ''Mint1''"
proof -
  let ?bad = "\<lparr>success = False, mint = None, signature = None, metadataUri = None, pumpUrl = None,
               error = Some ''Unknown error''\<rparr>"
  let ?f = "deploy example_client example_options broken_node"
  let ?f' = "deploy example_client example_options retry_world"
  have f: "fst ?f = Inr ?bad" by (simp add: eval_defs)
  have gr: "generated retry_world = Suc 0" by (simp add: retry_world_def eval_defs)
  have a1: "fst (uploadMetadata example_client (metadata example_options) broken_node) = Inr ''ipfs://meta''"
    by (simp add: uploadMetadata_def io_defs example_defs example_options_def broken_node_def)
  have a2: "?f = (fst ?f, snd ?f)" by simp
  have a3: "keypairs retry_world = keypairs broken_node"
    by (simp add: retry_world_def deploy_generator)
  have a4: "generated (snd ?f) \<le> generated retry_world"
    by (simp add: retry_world_def)
  have a5: "fst (uploadMetadata example_client (metadata example_options) retry_world) = Inr ''ipfs://meta''"
    by (simp add: retry_world_def eval_defs)
  have a6: "?f' = (fst ?f', snd ?f')" by simp
  have s': "success (projr (fst ?f')) \<and> fst ?f' = Inr (projr (fst ?f'))"
    by (simp add: retry_world_def eval_defs)
  have k: "publicKey (keypairs broken_node (generated broken_node)) \<noteq>
           publicKey (keypairs broken_node (generated retry_world))"
    by (simp add: gr) (simp add: broken_node_def example_defs)
  note retry = deploy_mint_keypair_fresh [OF a1 a2 a3 a4 a5 a6, of ?bad "projr (fst ?f')"]
  have first: "map req_mint (trade_requests (new_calls broken_node (snd ?f))) = [''Mint''] \<and>
               map req_mint (trade_requests (new_calls retry_world (snd ?f'))) = [''Mint1''] \<and>
               mint (projr (fst ?f')) = Some ''Mint1''"
    using retry s' k by (simp add: gr) (simp add: broken_node_def example_defs)
  let ?w = "example_world None"
  let ?d = "deploy example_client example_options ?w"
  let ?v = "snd (buy example_client ''Mint'' (Num 1) None (snd ?d))"
  let ?d' = "deploy example_client example_options ?v"
  have g: "generated (snd ?d) = Suc 0" by (simp add: eval_defs)
  have gv: "generated ?v = Suc 0" by (simp add: buy_generator g)
  have r1: "success (projr (fst ?d)) \<and> fst ?d = Inr (projr (fst ?d))" by (simp add: eval_defs)
  have r2: "success (projr (fst ?d')) \<and> fst ?d' = Inr (projr (fst ?d'))" by (simp add: eval_defs)
  have b1: "fst (uploadMetadata example_client (metadata example_options) ?w) = Inr ''ipfs://meta''"
    by (simp add: uploadMetadata_def io_defs example_defs example_options_def)
  have b2: "?d = (fst ?d, snd ?d)" by simp
  have b3: "keypairs ?v = keypairs ?w" by (simp add: buy_generator deploy_generator)
  have b4: "generated (snd ?d) \<le> generated ?v" by (simp add: buy_generator)
  have b5: "fst (uploadMetadata example_client (metadata example_options) ?v) = Inr ''ipfs://meta''"
    by (simp add: eval_defs)
  have b6: "?d' = (fst ?d', snd ?d')" by simp
  have k2: "publicKey (keypairs ?w (generated ?w)) \<noteq> publicKey (keypairs ?w (generated ?v))"
    by (simp add: gv) (simp add: example_defs)
  note both = deploy_mint_keypair_fresh [OF b1 b2 b3 b4 b5 b6, of "projr (fst ?d)" "projr (fst ?d')"]
  have second: "mint (projr (fst ?d)) = Some ''Mint'' \<and> mint (projr (fst ?d')) = Some ''Mint1'' \<and>
                mint (projr (fst ?d)) \<noteq> mint (projr (fst ?d'))"
    using both r1 r2 k2 by (simp add: gv) (simp add: example_defs)
  show ?thesis using f gr first second by simp
qed

section \<open>The agent's default description\<close>

lemma metadata_form_description:
  "map_of (metadata_form w m) ''description'' = Some (Field (description m))"
  by (simp add: metadata_form_def)

text \<open>
  C10. In the agent's \<open>deploy\<close> the one form sent to the uploader has the description
  \<open>name - AI-generated art token\<close> when the caller gives no description or the empty
  string, and the caller's description unchanged when it is non-empty.
\<close>

theorem agent_description_default:
  "map (\<lambda>f. map_of f ''description'') (uploaded_forms (new_calls w
     (snd (TurnipAgent_deploy a (options\<lparr>opt_description := None\<rparr>) w)))) =
     [Some (Field (opt_name options @ '' - AI-generated art token''))] \<and>
   map (\<lambda>f. map_of f ''description'') (uploaded_forms (new_calls w
     (snd (TurnipAgent_deploy a (options\<lparr>opt_description := Some []\<rparr>) w)))) =
     [Some (Field (opt_name options @ '' - AI-generated art token''))] \<and>
   map (\<lambda>f. map_of f ''description'') (uploaded_forms (new_calls w
     (snd (TurnipAgent_deploy a (options\<lparr>opt_description := Some (ch # text)\<rparr>) w)))) =
     [Some (Field (ch # text))]"
  by (simp add: TurnipAgent_deploy_def deploy_uploaded_forms metadata_form_description
        agent_metadata_def or_string_def)

end
